theory Spec2Isabelle
  imports Complex_Main "HOL-Library.Sublist"
begin

section \<open>Data model\<close>

text \<open>
  The marketplace keeps four collections: orders, listings, users and chats. Object
  identifiers and dates are natural numbers; a JavaScript \<open>Number\<close> holding a price or
  an average is an exact rational. A reference that the source populates is kept as the
  identifier it stores, and a comparison of two identifiers through \<open>toString()\<close> is
  equality of the identifiers. Socket notifications and the JSON bodies of the responses
  do not touch the collections and are left out: a request handler maps the collections
  to a result (the error passed to \<open>next\<close>, or the document it answers with) and the
  collections it leaves behind. Authentication and rate limiting run before a handler and
  are not part of it: the caller is the authenticated user. The save hooks that the models
  declare are part of a save; the declarative options of the schemas (required, min, max,
  enum, maxlength) are read as the types of the fields, and a request body is taken to
  fit them. Requests are handled one at a time.
\<close>

type_synonym user_id = nat
type_synonym listing_id = nat
type_synonym order_id = nat
type_synonym chat_id = nat
type_synonym message_id = nat
type_synonym date = nat

text \<open>
  \<open>AppError\<close> is the source's error class (message and HTTP status code); \<open>Thrown\<close>
  is any other exception (an \<open>Error\<close> raised by a save hook, a \<open>TypeError\<close>);
  \<open>ValidationFailed\<close> is the 400 answer of the \<open>validate\<close> middleware.
\<close>

datatype failure =
    AppError string nat
  | Thrown string
  | ValidationFailed

datatype role = Student | Admin

record req_user =
  ru_id :: user_id
  ru_role :: role

datatype order_status =
    Pending | Confirmed | MeetupScheduled | InProgress | Completed | Cancelled | Disputed

fun status_name :: "order_status \<Rightarrow> string" where
  "status_name Pending = ''pending''"
| "status_name Confirmed = ''confirmed''"
| "status_name MeetupScheduled = ''meetup-scheduled''"
| "status_name InProgress = ''in-progress''"
| "status_name Completed = ''completed''"
| "status_name Cancelled = ''cancelled''"
| "status_name Disputed = ''disputed''"

datatype listing_status = Active | Sold | Reserved | Inactive

datatype dispute_status = DisputeOpen | DisputeInReview | DisputeResolved

record timeline_entry =
  te_status :: order_status
  te_timestamp :: date
  te_note :: string

record rating_entry =
  score :: int
  review :: "string option"
  rated_at :: date

record cancellation_rec =
  cancelledBy :: user_id
  cancel_reason :: string
  cancel_timestamp :: date

record dispute_rec =
  initiatedBy :: user_id
  dispute_reason :: string
  dispute_state :: dispute_status
  dispute_timestamp :: date

record meetup =
  location :: "string option"
  meetup_date :: "date option"
  meetup_time :: "string option"
  additionalInfo :: "string option"

record snapshot =
  snap_title :: string
  snap_description :: string
  snap_images :: "string list"
  snap_category :: string

record order =
  oid :: order_id
  buyer :: user_id
  seller :: user_id
  listing :: listing_id
  listingSnapshot :: snapshot
  price :: rat
  negotiatedPrice :: "rat option"
  finalPrice :: rat
  status :: order_status
  meetupDetails :: "meetup option"
  timeline :: "timeline_entry list"
  buyerRating :: "rating_entry option"
  sellerRating :: "rating_entry option"
  cancellation :: "cancellation_rec option"
  dispute :: "dispute_rec option"
  notes_buyer :: "string option"
  notes_seller :: "string option"

record image =
  url :: string
  publicId :: string

record listing_rec =
  l_title :: string
  l_description :: string
  l_category :: string
  l_price :: rat
  l_images :: "image list"
  l_seller :: user_id
  l_status :: listing_status

record user_rec =
  rating_average :: rat
  rating_count :: nat
  user_orders :: "order_id list"

datatype msg_type = TextMsg | ImageMsg | OfferMsg

datatype offer_status = OfferPending | OfferAccepted | OfferRejected | OfferWithdrawn

text \<open>
  A stored message. The schema gives \<open>offer.status\<close> the default \<open>pending\<close> and
  \<open>isRead\<close> the default \<open>false\<close>; the sub-document's \<open>createdAt\<close> is set by the
  schema's timestamps when the message is first saved.
\<close>

record message =
  mid :: message_id
  sender :: user_id
  content :: string
  mtype :: msg_type
  msg_image :: "image option"
  offer_amount :: "rat option"
  offer_state :: offer_status
  isRead :: bool
  readAt :: "date option"
  createdAt :: date

record last_message =
  lm_content :: string
  lm_sender :: user_id
  lm_createdAt :: "date option"

text \<open>
  The chat's save hook refuses a chat whose \<open>participants\<close> array does not have exactly
  two entries, so a stored chat has two: they are a pair. \<open>unreadCount\<close> is a Map from
  user to number.
\<close>

record chat =
  participants :: "user_id \<times> user_id"
  chat_listing :: listing_id
  messages :: "message list"
  lastMessage :: "last_message option"
  unreadCount :: "user_id \<rightharpoonup> nat"
  isActive :: bool
  blockedBy :: "user_id list"

record state =
  orders :: "order list"
  listings :: "listing_id \<rightharpoonup> listing_rec"
  users :: "user_id \<rightharpoonup> user_rec"
  chats :: "chat_id \<rightharpoonup> chat"

type_synonym 'a outcome = "(failure + 'a) \<times> state"

section \<open>Order model (Order.model.js)\<close>

text \<open>
  An identifier names one document: \<open>findById\<close> reads the first document with the
  identifier and \<open>save()\<close> of a loaded document writes it back in that place.
\<close>

definition findOrder :: "order_id \<Rightarrow> state \<Rightarrow> order option" where
  "findOrder i s = find (\<lambda>x. oid x = i) (orders s)"

fun update_first :: "('a \<Rightarrow> bool) \<Rightarrow> ('a \<Rightarrow> 'a) \<Rightarrow> 'a list \<Rightarrow> 'a list" where
  "update_first P f [] = []"
| "update_first P f (x # xs) = (if P x then f x # xs else x # update_first P f xs)"

definition order_save :: "order \<Rightarrow> state \<Rightarrow> state" where
  "order_save od s = s\<lparr>orders := update_first (\<lambda>x. oid x = oid od) (\<lambda>x. od) (orders s)\<rparr>"

definition updateStatus :: "order_status \<Rightarrow> string \<Rightarrow> date \<Rightarrow> order \<Rightarrow> order" where
  "updateStatus newStatus note now od =
     od\<lparr>status := newStatus,
        timeline := timeline od @
          [\<lparr>te_status = newStatus, te_timestamp = now, te_note = note\<rparr>]\<rparr>"

definition cancel :: "user_id \<Rightarrow> string \<Rightarrow> date \<Rightarrow> order \<Rightarrow> order" where
  "cancel userId reason now od =
     od\<lparr>status := Cancelled,
        cancellation := Some \<lparr>cancelledBy = userId, cancel_reason = reason,
                              cancel_timestamp = now\<rparr>,
        timeline := timeline od @
          [\<lparr>te_status = Cancelled, te_timestamp = now,
            te_note = ''Cancelled by user. Reason: '' @ reason\<rparr>]\<rparr>"

definition initiateDispute_m :: "user_id \<Rightarrow> string \<Rightarrow> date \<Rightarrow> order \<Rightarrow> order" where
  "initiateDispute_m userId reason now od =
     od\<lparr>status := Disputed,
        dispute := Some \<lparr>initiatedBy = userId, dispute_reason = reason,
                         dispute_state = DisputeOpen, dispute_timestamp = now\<rparr>,
        timeline := timeline od @
          [\<lparr>te_status = Disputed, te_timestamp = now,
            te_note = ''Dispute initiated: '' @ reason\<rparr>]\<rparr>"

definition canBeRated :: "order \<Rightarrow> bool" where
  "canBeRated od = (status od = Completed)"

definition canBeCancelled :: "order \<Rightarrow> bool" where
  "canBeCancelled od = (status od \<in> set [Pending, Confirmed, MeetupScheduled])"

text \<open>
  The query of \<open>addRating\<close>: the completed orders in which the target has the role
  opposite to the rater's and the rater's slot holds a score.
\<close>

definition rated_orders :: "bool \<Rightarrow> user_id \<Rightarrow> order list \<Rightarrow> order list" where
  "rated_orders isBuyer targetUser os =
     filter (\<lambda>x. (if isBuyer then seller x else buyer x) = targetUser
               \<and> status x = Completed
               \<and> (if isBuyer then buyerRating x else sellerRating x) \<noteq> None) os"

text \<open>\<open>order.rating.buyerRating?.score || 0\<close>, and its seller twin.\<close>

definition score_or_zero :: "rating_entry option \<Rightarrow> int" where
  "score_or_zero r = (case r of None \<Rightarrow> 0 | Some e \<Rightarrow> score e)"

definition sumRatings :: "bool \<Rightarrow> order list \<Rightarrow> int" where
  "sumRatings isBuyer os =
     fold (\<lambda>x sum. sum + score_or_zero (if isBuyer then buyerRating x else sellerRating x)) os 0"

definition averageRating :: "bool \<Rightarrow> order list \<Rightarrow> rat" where
  "averageRating isBuyer os =
     (if length os > 0 then of_int (sumRatings isBuyer os) / of_nat (length os) else 0)"

text \<open>\<open>User.findByIdAndUpdate\<close> changes nothing when the user does not exist.\<close>

definition setUserRating :: "user_id \<Rightarrow> rat \<Rightarrow> nat \<Rightarrow> state \<Rightarrow> state" where
  "setUserRating i avg n s =
     (case users s i of
        None \<Rightarrow> s
      | Some u \<Rightarrow> s\<lparr>users := (users s)(i \<mapsto> u\<lparr>rating_average := avg, rating_count := n\<rparr>)\<rparr>)"

definition addRating_m :: "user_id \<Rightarrow> int \<Rightarrow> string option \<Rightarrow> date \<Rightarrow> order \<Rightarrow> state
    \<Rightarrow> order \<times> state" where
  "addRating_m userId sc rv now od s =
     (let isBuyer = (buyer od = userId);
          entry = \<lparr>score = sc, review = rv, rated_at = now\<rparr>;
          od' = (if isBuyer then od\<lparr>buyerRating := Some entry\<rparr>
                 else od\<lparr>sellerRating := Some entry\<rparr>);
          s1 = order_save od' s;
          targetUser = (if isBuyer then seller od else buyer od);
          found = rated_orders isBuyer targetUser (orders s1);
          totalRatings = length found
      in (od', setUserRating targetUser (averageRating isBuyer found) totalRatings s1))"

section \<open>Listing model\<close>


definition setListingStatus :: "listing_id \<Rightarrow> listing_status \<Rightarrow> state \<Rightarrow> state" where
  "setListingStatus i st s =
     (case listings s i of
        None \<Rightarrow> s
      | Some l \<Rightarrow> s\<lparr>listings := (listings s)(i \<mapsto> l\<lparr>l_status := st\<rparr>)\<rparr>)"

definition pushUserOrder :: "user_id \<Rightarrow> order_id \<Rightarrow> state \<Rightarrow> state" where
  "pushUserOrder i k s =
     (case users s i of
        None \<Rightarrow> s
      | Some u \<Rightarrow> s\<lparr>users := (users s)(i \<mapsto> u\<lparr>user_orders := user_orders u @ [k]\<rparr>)\<rparr>)"

section \<open>Order controller (order.controller.js)\<close>

definition validTransitions :: "order_status \<Rightarrow> order_status list" where
  "validTransitions st =
     (case st of
        Pending \<Rightarrow> [Confirmed, Cancelled]
      | Confirmed \<Rightarrow> [MeetupScheduled, Cancelled]
      | MeetupScheduled \<Rightarrow> [InProgress, Cancelled]
      | InProgress \<Rightarrow> [Completed, Disputed]
      | Completed \<Rightarrow> []
      | Cancelled \<Rightarrow> []
      | Disputed \<Rightarrow> [Completed, Cancelled])"


definition updateOrderStatus :: "req_user \<Rightarrow> date \<Rightarrow> order_id \<Rightarrow> order_status
    \<Rightarrow> string option \<Rightarrow> state \<Rightarrow> order outcome" where
  "updateOrderStatus u now i st note s =
     (case findOrder i s of
        None \<Rightarrow> (Inl (AppError ''Order not found'' 404), s)
      | Some od \<Rightarrow>
          let isBuyer = (buyer od = ru_id u);
              isSeller = (seller od = ru_id u)
          in if \<not> isBuyer \<and> \<not> isSeller \<and> ru_role u \<noteq> Admin
               then (Inl (AppError ''Not authorized to update this order'' 403), s)
             else if st \<notin> set (validTransitions (status od))
               then (Inl (AppError (''Cannot change status from '' @ status_name (status od)
                                     @ '' to '' @ status_name st) 400), s)
             else
               let od' = updateStatus st (case note of None \<Rightarrow> [] | Some n \<Rightarrow> n) now od;
                   s1 = order_save od' s;
                   s2 = (if st = Completed then setListingStatus (listing od) Sold s1 else s1);
                   s3 = (if st = Cancelled then setListingStatus (listing od) Active s2 else s2)
               in (Inr od', s3))"


text \<open>\<open>existingRating?.score\<close> is truthy: the slot holds a score other than 0.\<close>

definition slot_rated :: "rating_entry option \<Rightarrow> bool" where
  "slot_rated r = (case r of None \<Rightarrow> False | Some e \<Rightarrow> score e \<noteq> 0)"

definition addRating :: "req_user \<Rightarrow> date \<Rightarrow> order_id \<Rightarrow> int \<Rightarrow> string option \<Rightarrow> state
    \<Rightarrow> order outcome" where
  "addRating u now i sc rv s =
     (case findOrder i s of
        None \<Rightarrow> (Inl (AppError ''Order not found'' 404), s)
      | Some od \<Rightarrow>
          if \<not> canBeRated od
            then (Inl (AppError ''Only completed orders can be rated'' 400), s)
          else
            let isBuyer = (buyer od = ru_id u);
                isSeller = (seller od = ru_id u)
            in if \<not> isBuyer \<and> \<not> isSeller
                 then (Inl (AppError ''Not authorized to rate this order'' 403), s)
               else if slot_rated (if isBuyer then buyerRating od else sellerRating od)
                 then (Inl (AppError ''You have already rated this order'' 400), s)
               else (case addRating_m (ru_id u) sc rv now od s of
                       (od', s') \<Rightarrow> (Inr od', s')))"


definition cancelOrder :: "req_user \<Rightarrow> date \<Rightarrow> order_id \<Rightarrow> string option \<Rightarrow> state
    \<Rightarrow> order outcome" where
  "cancelOrder u now i reason s =
     (case reason of
        None \<Rightarrow> (Inl (AppError ''Cancellation reason is required'' 400), s)
      | Some r \<Rightarrow>
          if r = [] then (Inl (AppError ''Cancellation reason is required'' 400), s)
          else
            (case findOrder i s of
               None \<Rightarrow> (Inl (AppError ''Order not found'' 404), s)
             | Some od \<Rightarrow>
                 if buyer od \<noteq> ru_id u \<and> seller od \<noteq> ru_id u
                   then (Inl (AppError ''Not authorized to cancel this order'' 403), s)
                 else if \<not> canBeCancelled od
                   then (Inl (AppError ''This order cannot be cancelled at this stage'' 400), s)
                 else
                   let od' = cancel (ru_id u) r now od
                   in (Inr od', setListingStatus (listing od) Active (order_save od' s))))"

definition initiateDispute :: "req_user \<Rightarrow> date \<Rightarrow> order_id \<Rightarrow> string option \<Rightarrow> state
    \<Rightarrow> order outcome" where
  "initiateDispute u now i reason s =
     (case reason of
        None \<Rightarrow> (Inl (AppError ''Dispute reason is required'' 400), s)
      | Some r \<Rightarrow>
          if r = [] then (Inl (AppError ''Dispute reason is required'' 400), s)
          else
            (case findOrder i s of
               None \<Rightarrow> (Inl (AppError ''Order not found'' 404), s)
             | Some od \<Rightarrow>
                 if buyer od \<noteq> ru_id u \<and> seller od \<noteq> ru_id u
                   then (Inl (AppError ''Not authorized to dispute this order'' 403), s)
                 else if status od = Disputed
                   then (Inl (AppError ''This order is already in dispute'' 400), s)
                 else
                   let od' = initiateDispute_m (ru_id u) r now od
                   in (Inr od', order_save od' s)))"


section \<open>Request validation (validation.middleware.js)\<close>

text \<open>
  The validator's \<open>trim\<close> sanitiser removes the white space at both ends of the
  content and writes the result back into the request body.
\<close>

definition is_space :: "char \<Rightarrow> bool" where
  "is_space c = (c \<in> set [CHR '' '', CHR 0x09, CHR 0x0A, CHR 0x0B, CHR 0x0C, CHR 0x0D])"

definition trim :: "string \<Rightarrow> string" where
  "trim t = rev (dropWhile is_space (rev (dropWhile is_space t)))"

text \<open>
  \<open>sendMessageValidation\<close>: the trimmed content must be non-empty and at most 2000
  characters long. The type, when given, is one of the three message types, which the
  datatype already says. The result is the sanitised content.
\<close>

definition sendMessageValidation :: "string \<Rightarrow> failure + string" where
  "sendMessageValidation body_content =
     (let c = trim body_content
      in if c = [] then Inl ValidationFailed
         else if length c > 2000 then Inl ValidationFailed
         else Inr c)"

text \<open>
  \<open>addRatingValidation\<close>: the score is an integer from 1 to 5; the review, when given,
  is trimmed and at most 500 characters long.
\<close>

definition addRatingValidation :: "int \<Rightarrow> string option \<Rightarrow> failure + string option" where
  "addRatingValidation sc rv =
     (if sc < 1 \<or> sc > 5 then Inl ValidationFailed
      else case rv of
        None \<Rightarrow> Inr None
      | Some t \<Rightarrow> if length (trim t) > 500 then Inl ValidationFailed else Inr (Some (trim t)))"

text \<open>The route \<open>POST /api/orders/:id/rating\<close>: validation, then the controller.\<close>

definition addRating_route :: "req_user \<Rightarrow> date \<Rightarrow> order_id \<Rightarrow> int \<Rightarrow> string option \<Rightarrow> state
    \<Rightarrow> order outcome" where
  "addRating_route u now i sc rv s =
     (case addRatingValidation sc rv of
        Inl e \<Rightarrow> (Inl e, s)
      | Inr rv' \<Rightarrow> addRating u now i sc rv' s)"

section \<open>Chat model (Chat.model.js)\<close>

text \<open>
  The object that \<open>sendMessage\<close> builds and pushes: sender, content and type, an image
  or an offer when the controller attached one. The controller's object literal has no
  \<open>createdAt\<close> property, so reading it yields \<open>undefined\<close>.
\<close>

record message_obj =
  mo_sender :: user_id
  mo_content :: string
  mo_type :: msg_type
  mo_image :: "image option"
  mo_offer :: "(rat option \<times> offer_status) option"
  mo_createdAt :: "date option"

text \<open>
  Pushing the object onto \<open>messages\<close> casts it to a sub-document: it gets an
  identifier, the schema's defaults, and its timestamp at the save that follows. The
  schema's own trim of the content leaves a validated content as it is.
\<close>

definition cast_message :: "message_id \<Rightarrow> date \<Rightarrow> message_obj \<Rightarrow> message" where
  "cast_message new_id now m =
     \<lparr>mid = new_id, sender = mo_sender m, content = mo_content m, mtype = mo_type m,
      msg_image = mo_image m,
      offer_amount = (case mo_offer m of None \<Rightarrow> None | Some (a, st) \<Rightarrow> a),
      offer_state = (case mo_offer m of None \<Rightarrow> OfferPending | Some (a, st) \<Rightarrow> st),
      isRead = False, readAt = None, createdAt = now\<rparr>"

definition updateLastMessage :: "message_obj \<Rightarrow> chat \<Rightarrow> chat" where
  "updateLastMessage m c =
     c\<lparr>lastMessage := Some \<lparr>lm_content = take 100 (mo_content m), lm_sender = mo_sender m,
                             lm_createdAt = mo_createdAt m\<rparr>\<rparr>"

text \<open>\<open>unreadCount.get(id) || 0\<close>.\<close>

definition getUnread :: "chat \<Rightarrow> user_id \<Rightarrow> nat" where
  "getUnread c i = (case unreadCount c i of None \<Rightarrow> 0 | Some n \<Rightarrow> n)"

definition incrementUnread :: "user_id \<Rightarrow> chat \<Rightarrow> chat" where
  "incrementUnread recipientId c =
     c\<lparr>unreadCount := (unreadCount c)(recipientId \<mapsto> getUnread c recipientId + 1)\<rparr>"

text \<open>
  \<open>markAsRead\<close>: the loop marks each unread message of another sender and raises the
  flag \<open>hasUnread\<close>; the counter is written only when the flag is up.
\<close>

definition to_mark :: "user_id \<Rightarrow> message \<Rightarrow> bool" where
  "to_mark userId m = (\<not> isRead m \<and> sender m \<noteq> userId)"

definition markAsRead :: "user_id \<Rightarrow> date \<Rightarrow> chat \<Rightarrow> chat" where
  "markAsRead userId now c =
     (let hasUnread = list_ex (to_mark userId) (messages c);
          c1 = c\<lparr>messages :=
                  map (\<lambda>m. if to_mark userId m then m\<lparr>isRead := True, readAt := Some now\<rparr>
                           else m) (messages c)\<rparr>
      in if hasUnread then c1\<lparr>unreadCount := (unreadCount c1)(userId \<mapsto> 0)\<rparr> else c1)"

definition isParticipant :: "chat \<Rightarrow> user_id \<Rightarrow> bool" where
  "isParticipant c userId = (fst (participants c) = userId \<or> snd (participants c) = userId)"

definition isBlockedBy :: "chat \<Rightarrow> user_id \<Rightarrow> bool" where
  "isBlockedBy c userId = list_ex (\<lambda>b. b = userId) (blockedBy c)"

definition chat_save :: "chat_id \<Rightarrow> chat \<Rightarrow> state \<Rightarrow> state" where
  "chat_save i c s = s\<lparr>chats := (chats s)(i \<mapsto> c)\<rparr>"

section \<open>Chat controller (chat.controller.js)\<close>

text \<open>\<open>chat.participants.find((p) => p.toString() !== req.user._id.toString())\<close>.\<close>

definition other_participant :: "chat \<Rightarrow> user_id \<Rightarrow> user_id option" where
  "other_participant c me = find (\<lambda>p. p \<noteq> me) [fst (participants c), snd (participants c)]"


definition markChatAsRead :: "req_user \<Rightarrow> date \<Rightarrow> chat_id \<Rightarrow> state \<Rightarrow> unit outcome" where
  "markChatAsRead u now i s =
     (case chats s i of
        None \<Rightarrow> (Inl (AppError ''Chat not found'' 404), s)
      | Some c \<Rightarrow>
          if \<not> isParticipant c (ru_id u)
            then (Inl (AppError ''Not authorized to access this chat'' 403), s)
          else (Inr (), chat_save i (markAsRead (ru_id u) now c) s))"

text \<open>
  \<open>sendMessage\<close>, after validation. \<open>ty\<close>, \<open>img\<close> and \<open>offer\<close> are the optional
  members of the body; an offer body may lack its amount. When the chat has no
  participant other than the caller, \<open>recipient\<close> is \<open>undefined\<close>: asking whether it
  blocked the chat throws as soon as \<open>blockedBy\<close> has an entry to compare with, and
  \<open>incrementUnread\<close> throws after \<open>updateLastMessage\<close> has saved the message.
\<close>

definition sendMessage :: "req_user \<Rightarrow> message_id \<Rightarrow> date \<Rightarrow> chat_id \<Rightarrow> string
    \<Rightarrow> msg_type option \<Rightarrow> image option \<Rightarrow> rat option option \<Rightarrow> state \<Rightarrow> message outcome" where
  "sendMessage u new_id now i body_content ty img offer s =
     (let type = (case ty of None \<Rightarrow> TextMsg | Some t \<Rightarrow> t)
      in case chats s i of
        None \<Rightarrow> (Inl (AppError ''Chat not found'' 404), s)
      | Some c \<Rightarrow>
          if \<not> isParticipant c (ru_id u)
            then (Inl (AppError ''Not authorized to send messages in this chat'' 403), s)
          else if isBlockedBy c (ru_id u)
            then (Inl (AppError ''You have blocked this chat'' 403), s)
          else
            let recipient = other_participant c (ru_id u)
            in if (case recipient of None \<Rightarrow> blockedBy c \<noteq> [] | Some r \<Rightarrow> False)
                 then (Inl (Thrown ''TypeError''), s)
               else if (case recipient of None \<Rightarrow> False | Some r \<Rightarrow> isBlockedBy c r)
                 then (Inl (AppError ''You cannot send messages to this user'' 403), s)
               else
                 let msg = \<lparr>mo_sender = ru_id u, mo_content = body_content, mo_type = type,
                            mo_image = (if type = ImageMsg then img else None),
                            mo_offer = (if type = OfferMsg
                                        then (case offer of None \<Rightarrow> None
                                              | Some amount \<Rightarrow> Some (amount, OfferPending))
                                        else None),
                            mo_createdAt = None\<rparr>;
                     newMessage = cast_message new_id now msg;
                     c1 = c\<lparr>messages := messages c @ [newMessage]\<rparr>;
                     c2 = updateLastMessage msg c1;
                     s1 = chat_save i c2 s
                 in (case recipient of
                       None \<Rightarrow> (Inl (Thrown ''TypeError''), s1)
                     | Some r \<Rightarrow> (Inr newMessage, chat_save i (incrementUnread r c2) s1)))"

text \<open>The route \<open>POST /api/chat/:id/messages\<close>: validation, then the controller.\<close>

definition sendMessage_route :: "req_user \<Rightarrow> message_id \<Rightarrow> date \<Rightarrow> chat_id \<Rightarrow> string
    \<Rightarrow> msg_type option \<Rightarrow> image option \<Rightarrow> rat option option \<Rightarrow> state \<Rightarrow> message outcome" where
  "sendMessage_route u new_id now i body_content ty img offer s =
     (case sendMessageValidation body_content of
        Inl e \<Rightarrow> (Inl e, s)
      | Inr c \<Rightarrow> sendMessage u new_id now i c ty img offer s)"


text \<open>\<open>chat.messages.id(messageId)\<close> is the first message with that identifier.\<close>

text \<open>
  \<open>respondToOffer\<close>. The chat's listing is populated for its seller; when the listing
  is gone the populated value is \<open>null\<close> and reading its seller throws.
\<close>

definition respondToOffer :: "req_user \<Rightarrow> chat_id \<Rightarrow> message_id \<Rightarrow> offer_status \<Rightarrow> state
    \<Rightarrow> message outcome" where
  "respondToOffer u chatId messageId st s =
     (if st \<notin> set [OfferAccepted, OfferRejected]
        then (Inl (AppError ''Invalid status. Use \"accepted\" or \"rejected\"'' 400), s)
      else case chats s chatId of
        None \<Rightarrow> (Inl (AppError ''Chat not found'' 404), s)
      | Some c \<Rightarrow>
          (case listings s (chat_listing c) of
             None \<Rightarrow> (Inl (Thrown ''TypeError''), s)
           | Some l \<Rightarrow>
               if l_seller l \<noteq> ru_id u
                 then (Inl (AppError ''Only the seller can respond to offers'' 403), s)
               else
                 (case find (\<lambda>m. mid m = messageId) (messages c) of
                    None \<Rightarrow> (Inl (AppError ''Message not found'' 404), s)
                  | Some m \<Rightarrow>
                      if mtype m \<noteq> OfferMsg
                        then (Inl (AppError ''This message is not an offer'' 400), s)
                      else if offer_state m \<noteq> OfferPending
                        then (Inl (AppError ''This offer has already been responded to'' 400), s)
                      else
                        (Inr (m\<lparr>offer_state := st\<rparr>),
                         chat_save chatId
                           (c\<lparr>messages := update_first (\<lambda>m. mid m = messageId)
                                            (\<lambda>m. m\<lparr>offer_state := st\<rparr>) (messages c)\<rparr>) s))))"

section \<open>Sequences of order requests\<close>




section \<open>Properties\<close>

text \<open>The status of an order is the status of the last entry of its timeline.\<close>

definition status_matches_timeline :: "order \<Rightarrow> bool" where
  "status_matches_timeline od =
     (timeline od \<noteq> [] \<and> status od = te_status (last (timeline od)))"


text \<open>
  One write of an order: the identifier stays, the timeline grows at its end, and an
  order whose status matched its timeline still does.
\<close>

definition order_step :: "order \<Rightarrow> order \<Rightarrow> bool" where
  "order_step od od' =
     (oid od' = oid od \<and> prefix (timeline od) (timeline od')
      \<and> (status_matches_timeline od \<longrightarrow> status_matches_timeline od'))"







text \<open>The order after \<open>addRating\<close> has written the caller's slot.\<close>

definition rated_by :: "user_id \<Rightarrow> int \<Rightarrow> string option \<Rightarrow> date \<Rightarrow> order \<Rightarrow> order" where
  "rated_by uid sc rv now od =
     (if buyer od = uid then od\<lparr>buyerRating := Some \<lparr>score = sc, review = rv, rated_at = now\<rparr>\<rparr>
      else od\<lparr>sellerRating := Some \<lparr>score = sc, review = rv, rated_at = now\<rparr>\<rparr>)"

text \<open>What \<open>markAsRead\<close> does to one message.\<close>

definition mark :: "user_id \<Rightarrow> date \<Rightarrow> message \<Rightarrow> message" where
  "mark u now m = (if to_mark u m then m\<lparr>isRead := True, readAt := Some now\<rparr> else m)"


text \<open>The object that \<open>sendMessage\<close> builds from the request.\<close>

definition built_message :: "req_user \<Rightarrow> string \<Rightarrow> msg_type option \<Rightarrow> image option
    \<Rightarrow> rat option option \<Rightarrow> message_obj" where
  "built_message u body_content ty img offer =
     (let type = (case ty of None \<Rightarrow> TextMsg | Some t \<Rightarrow> t)
      in \<lparr>mo_sender = ru_id u, mo_content = body_content, mo_type = type,
          mo_image = (if type = ImageMsg then img else None),
          mo_offer = (if type = OfferMsg
                      then (case offer of None \<Rightarrow> None
                            | Some amount \<Rightarrow> Some (amount, OfferPending))
                      else None),
          mo_createdAt = None\<rparr>)"

section \<open>Example collections\<close>

definition ex_user :: user_rec where
  "ex_user = \<lparr>rating_average = 0, rating_count = 0, user_orders = []\<rparr>"

definition ex_listing :: listing_rec where
  "ex_listing =
     \<lparr>l_title = ''Calculus textbook'', l_description = ''Eighth edition, clean'',
      l_category = ''textbooks'', l_price = 45,
      l_images = [\<lparr>url = ''http://img/1'', publicId = ''p1''\<rparr>],
      l_seller = 20, l_status = Active\<rparr>"

definition ex_order :: order where
  "ex_order =
     \<lparr>oid = 1, buyer = 10, seller = 20, listing = 7,
      listingSnapshot = \<lparr>snap_title = ''Calculus textbook'',
                         snap_description = ''Eighth edition, clean'',
                         snap_images = [''http://img/1''], snap_category = ''textbooks''\<rparr>,
      price = 45, negotiatedPrice = None, finalPrice = 45, status = Pending,
      meetupDetails = None,
      timeline = [\<lparr>te_status = Pending, te_timestamp = 100, te_note = ''Order created''\<rparr>],
      buyerRating = None, sellerRating = None, cancellation = None, dispute = None,
      notes_buyer = None, notes_seller = None\<rparr>"

text \<open>The order in another status, with the timeline entry of that status.\<close>

definition ex_order_in :: "order_status \<Rightarrow> order" where
  "ex_order_in st =
     ex_order\<lparr>status := st,
              timeline := timeline ex_order @
                [\<lparr>te_status = st, te_timestamp = 150, te_note = []\<rparr>]\<rparr>"

definition ex_state_with :: "order list \<Rightarrow> state" where
  "ex_state_with os =
     \<lparr>orders = os,
      listings = [7 \<mapsto> ex_listing\<lparr>l_status := Reserved\<rparr>, 8 \<mapsto> ex_listing],
      users = [10 \<mapsto> ex_user, 20 \<mapsto> ex_user, 30 \<mapsto> ex_user],
      chats = Map.empty\<rparr>"

definition ex_buyer :: req_user where
  "ex_buyer = \<lparr>ru_id = 10, ru_role = Student\<rparr>"

definition ex_seller :: req_user where
  "ex_seller = \<lparr>ru_id = 20, ru_role = Student\<rparr>"

definition ex_third :: req_user where
  "ex_third = \<lparr>ru_id = 30, ru_role = Student\<rparr>"


text \<open>No order yet, and listing 7 on offer; \<open>imgs\<close> are the listing's images.\<close>

definition ex_market :: "image list \<Rightarrow> state" where
  "ex_market imgs =
     \<lparr>orders = [],
      listings = [7 \<mapsto> ex_listing\<lparr>l_images := imgs\<rparr>],
      users = [10 \<mapsto> ex_user, 20 \<mapsto> ex_user],
      chats = Map.empty\<rparr>"

text \<open>
  Two completed orders: in order 1 user 20 sold to user 10, who rated the sale 5; in
  order 2 user 20 bought from user 30, and nobody has rated yet.
\<close>

definition ex_rated_orders :: "order list" where
  "ex_rated_orders =
     [(ex_order_in Completed)
        \<lparr>buyerRating := Some \<lparr>score = 5, review = None, rated_at = 160\<rparr>\<rparr>,
      (ex_order_in Completed)\<lparr>oid := 2, buyer := 20, seller := 30\<rparr>]"


text \<open>A message of the given sender, and a chat between users 10 and 20 on listing 7.\<close>

definition ex_message :: "message_id \<Rightarrow> user_id \<Rightarrow> msg_type \<Rightarrow> bool \<Rightarrow> message" where
  "ex_message k from ty rd =
     \<lparr>mid = k, sender = from, content = ''is it still available'', mtype = ty,
      msg_image = None, offer_amount = (if ty = OfferMsg then Some 40 else None),
      offer_state = OfferPending, isRead = rd, readAt = (if rd then Some 250 else None),
      createdAt = 200\<rparr>"

definition ex_chat :: "message list \<Rightarrow> nat \<Rightarrow> chat" where
  "ex_chat ms n =
     \<lparr>participants = (10, 20), chat_listing = 7, messages = ms, lastMessage = None,
      unreadCount = [10 \<mapsto> n, 20 \<mapsto> 0], isActive = True, blockedBy = []\<rparr>"

definition ex_chat_state :: "chat \<Rightarrow> state" where
  "ex_chat_state c =
     \<lparr>orders = [], listings = [7 \<mapsto> ex_listing],
      users = [10 \<mapsto> ex_user, 20 \<mapsto> ex_user],
      chats = [1 \<mapsto> c]\<rparr>"

section \<open>Verification: lists and saves\<close>

lemma update_first_length [simp]: "length (update_first P f xs) = length xs"
  by (induction xs) auto

lemma update_first_none: "find P xs = None \<Longrightarrow> update_first P f xs = xs"
  by (induction xs) (auto split: if_splits)

lemma find_update_first:
  "find P xs = Some x \<Longrightarrow> P (f x) \<Longrightarrow> find P (update_first P f xs) = Some (f x)"
  by (induction xs) (auto split: if_splits)




lemma find_oid: "find (\<lambda>x. oid x = i) xs = Some od \<Longrightarrow> oid od = i"
  by (auto simp: find_Some_iff)



lemma order_save_frame [simp]:
  "listings (order_save od s) = listings s" "users (order_save od s) = users s"
  "chats (order_save od s) = chats s"
  by (simp_all add: order_save_def)

lemma setListingStatus_frame [simp]:
  "orders (setListingStatus i st s) = orders s" "users (setListingStatus i st s) = users s"
  "chats (setListingStatus i st s) = chats s"
  by (simp_all add: setListingStatus_def split: option.splits)

lemma setUserRating_frame [simp]:
  "orders (setUserRating i a n s) = orders s" "listings (setUserRating i a n s) = listings s"
  "chats (setUserRating i a n s) = chats s"
  by (simp_all add: setUserRating_def split: option.splits)

lemma pushUserOrder_frame [simp]:
  "orders (pushUserOrder i k s) = orders s" "listings (pushUserOrder i k s) = listings s"
  "chats (pushUserOrder i k s) = chats s"
  by (simp_all add: pushUserOrder_def split: option.splits)

text \<open>A found order written back after a step keeps the log of every order.\<close>

lemma order_step_refl: "order_step od od"
  by (simp add: order_step_def)
























section \<open>Verification: the order state machine\<close>

text \<open>
  C1, as stated, fails: dispute initiation is guarded only by "not already disputed".
  The pair (pending, disputed) is no edge of the transition table, yet the buyer's
  dispute on the pending order 1 succeeds and the order is disputed afterwards.
\<close>

theorem C1_counterexample:
  "Disputed \<notin> set (validTransitions Pending)
   \<and> map status (orders (ex_state_with [ex_order])) = [Pending]
   \<and> \<not> isl (fst (initiateDispute ex_buyer 200 1 (Some ''not as described'')
                   (ex_state_with [ex_order])))
   \<and> map status (orders (snd (initiateDispute ex_buyer 200 1 (Some ''not as described'')
                                (ex_state_with [ex_order])))) = [Disputed]"
  by (simp add: validTransitions_def ex_state_with_def ex_order_def ex_buyer_def
      initiateDispute_def findOrder_def order_save_def initiateDispute_m_def Let_def)

text \<open>
  C1, amended. For an existing order: \<open>updateOrderStatus\<close> to a target that is no edge
  of the table fails and leaves every collection as it was, and for a caller who passes
  the authorisation check the error names the current and the requested status;
  \<open>cancelOrder\<close> fails and changes nothing whenever (current, cancelled) is no edge;
  \<open>initiateDispute\<close> fails and changes nothing when the order is already disputed.
\<close>

theorem C1_rejected_transitions:
  assumes "findOrder i s = Some od"
  shows "(st \<notin> set (validTransitions (status od)) \<longrightarrow>
           (\<exists>e. updateOrderStatus u now i st note s = (Inl e, s))
           \<and> (buyer od = ru_id u \<or> seller od = ru_id u \<or> ru_role u = Admin \<longrightarrow>
               updateOrderStatus u now i st note s =
                 (Inl (AppError (''Cannot change status from '' @ status_name (status od)
                                  @ '' to '' @ status_name st) 400), s)))
       \<and> (Cancelled \<notin> set (validTransitions (status od)) \<longrightarrow>
           (\<exists>e. cancelOrder u now i reason s = (Inl e, s)))
       \<and> (status od = Disputed \<longrightarrow> (\<exists>e. initiateDispute u now i reason s = (Inl e, s)))"
  using assms
  by (auto simp: updateOrderStatus_def cancelOrder_def initiateDispute_def canBeCancelled_def
      validTransitions_def Let_def split: option.splits order_status.splits)

text \<open>
  Witness of C1: a completed order refuses the move to confirmed and the cancellation,
  a disputed order refuses a second dispute.
\<close>

theorem C1_witness:
  "findOrder 1 (ex_state_with [ex_order_in Completed]) = Some (ex_order_in Completed)
   \<and> Confirmed \<notin> set (validTransitions (status (ex_order_in Completed)))
   \<and> Cancelled \<notin> set (validTransitions (status (ex_order_in Completed)))
   \<and> updateOrderStatus ex_buyer 200 1 Confirmed None (ex_state_with [ex_order_in Completed])
       = (Inl (AppError ''Cannot change status from completed to confirmed'' 400),
          ex_state_with [ex_order_in Completed])
   \<and> (\<exists>e. cancelOrder ex_buyer 200 1 (Some ''changed mind'') (ex_state_with [ex_order_in Completed])
          = (Inl e, ex_state_with [ex_order_in Completed]))
   \<and> findOrder 1 (ex_state_with [ex_order_in Disputed]) = Some (ex_order_in Disputed)
   \<and> status (ex_order_in Disputed) = Disputed
   \<and> (\<exists>e. initiateDispute ex_buyer 200 1 (Some ''again'') (ex_state_with [ex_order_in Disputed])
          = (Inl e, ex_state_with [ex_order_in Disputed]))"
proof -
  have f1: "findOrder 1 (ex_state_with [ex_order_in Completed]) = Some (ex_order_in Completed)"
    by (simp add: findOrder_def ex_state_with_def ex_order_in_def ex_order_def)
  have f2: "findOrder 1 (ex_state_with [ex_order_in Disputed]) = Some (ex_order_in Disputed)"
    by (simp add: findOrder_def ex_state_with_def ex_order_in_def ex_order_def)
  have st1: "status (ex_order_in Completed) = Completed" by (simp add: ex_order_in_def)
  have st2: "status (ex_order_in Disputed) = Disputed" by (simp add: ex_order_in_def)
  have b: "buyer (ex_order_in Completed) = ru_id ex_buyer"
    by (simp add: ex_order_in_def ex_order_def ex_buyer_def)
  show ?thesis
    using C1_rejected_transitions[OF f1, of Confirmed ex_buyer 200 None "Some ''changed mind''"]
      C1_rejected_transitions[OF f2, of Confirmed ex_buyer 200 None "Some ''again''"]
      f1 f2 st1 st2 b
    by (simp add: validTransitions_def)
qed



section \<open>Verification: listing status\<close>

lemmas ex_defs = ex_market_def ex_listing_def ex_buyer_def ex_seller_def ex_third_def
  ex_user_def ex_order_def ex_order_in_def ex_state_with_def ex_rated_orders_def







section \<open>Verification: ratings\<close>

lemma findOrder_after_save:
  assumes "findOrder i s = Some od" "oid od' = oid od"
  shows "findOrder i (order_save od' s) = Some od'"
proof -
  have i: "oid od = i" using assms(1) by (auto simp: findOrder_def dest: find_oid)
  have "find (\<lambda>x. oid x = i) (update_first (\<lambda>x. oid x = i) (\<lambda>x. od') (orders s)) = Some od'"
    using find_update_first[of "\<lambda>x. oid x = i" "orders s" od "\<lambda>x. od'"] assms i
    by (simp add: findOrder_def)
  then show ?thesis using assms(2) i by (simp add: findOrder_def order_save_def)
qed

lemma findOrder_cong: "orders s' = orders s \<Longrightarrow> findOrder i s' = findOrder i s"
  by (simp add: findOrder_def)

lemma addRating_m_fst: "fst (addRating_m uid sc rv now od s) = rated_by uid sc rv now od"
  by (simp add: addRating_m_def rated_by_def Let_def)

lemma addRating_m_orders:
  "orders (snd (addRating_m uid sc rv now od s)) = orders (order_save (rated_by uid sc rv now od) s)"
  by (simp add: addRating_m_def rated_by_def Let_def)

lemma addRating_m_frame:
  "listings (snd (addRating_m uid sc rv now od s)) = listings s"
  "chats (snd (addRating_m uid sc rv now od s)) = chats s"
  by (simp_all add: addRating_m_def Let_def)

lemma addRating_m_find:
  assumes "findOrder i s = Some od"
  shows "findOrder i (snd (addRating_m uid sc rv now od s)) = Some (rated_by uid sc rv now od)"
proof -
  have "oid (rated_by uid sc rv now od) = oid od" by (simp add: rated_by_def)
  from findOrder_after_save[OF assms this] show ?thesis
    using findOrder_cong[OF addRating_m_orders] by simp
qed

lemma addRating_success:
  assumes "\<not> isl (fst (addRating u now i sc rv s))"
  shows "\<exists>od. findOrder i s = Some od \<and> status od = Completed
      \<and> (buyer od = ru_id u \<or> seller od = ru_id u)
      \<and> \<not> slot_rated (if buyer od = ru_id u then buyerRating od else sellerRating od)
      \<and> fst (addRating u now i sc rv s) = Inr (rated_by (ru_id u) sc rv now od)
      \<and> snd (addRating u now i sc rv s) = snd (addRating_m (ru_id u) sc rv now od s)"
proof (cases "findOrder i s")
  case None
  with assms show ?thesis by (simp add: addRating_def)
next
  case (Some od)
  have e: "(case addRating_m (ru_id u) sc rv now od s of (od', s') \<Rightarrow> (Inr od', s'))
      = (Inr (rated_by (ru_id u) sc rv now od) :: failure + order,
         snd (addRating_m (ru_id u) sc rv now od s))"
    using addRating_m_fst[of "ru_id u" sc rv now od s]
    by (cases "addRating_m (ru_id u) sc rv now od s") simp
  from assms show ?thesis
    unfolding addRating_def Some option.case Let_def e canBeRated_def
    by (simp split: if_splits)
qed

lemma addRating_route_success:
  assumes "\<not> isl (fst (addRating_route u now i sc rv s))"
  shows "\<exists>od rv'. findOrder i s = Some od \<and> status od = Completed
      \<and> (buyer od = ru_id u \<or> seller od = ru_id u)
      \<and> \<not> slot_rated (if buyer od = ru_id u then buyerRating od else sellerRating od)
      \<and> 1 \<le> sc \<and> sc \<le> 5
      \<and> addRatingValidation sc rv = Inr rv'
      \<and> fst (addRating_route u now i sc rv s) = Inr (rated_by (ru_id u) sc rv' now od)
      \<and> snd (addRating_route u now i sc rv s) = snd (addRating_m (ru_id u) sc rv' now od s)"
proof (cases "addRatingValidation sc rv")
  case (Inl e)
  with assms show ?thesis by (simp add: addRating_route_def)
next
  case (Inr rv')
  then have r: "addRating_route u now i sc rv s = addRating u now i sc rv' s"
    by (simp add: addRating_route_def)
  from Inr have sc: "1 \<le> sc \<and> sc \<le> 5"
    by (auto simp: addRatingValidation_def split: if_splits)
  from assms r have "\<not> isl (fst (addRating u now i sc rv' s))" by simp
  from addRating_success[OF this] sc Inr r show ?thesis by auto
qed

lemma addRating_rejects_rated:
  assumes "findOrder i s = Some od" "status od = Completed"
    "buyer od = ru_id u \<or> seller od = ru_id u"
    "slot_rated (if buyer od = ru_id u then buyerRating od else sellerRating od)"
  shows "addRating u now i sc rv s = (Inl (AppError ''You have already rated this order'' 400), s)"
  using assms by (auto simp: addRating_def canBeRated_def Let_def)

lemma addRating_route_fails_unchanged:
  "isl (fst (addRating_route u now i sc rv s)) \<Longrightarrow> snd (addRating_route u now i sc rv s) = s"
  by (cases "addRatingValidation sc rv"; cases "findOrder i s")
    (auto simp: addRating_route_def addRating_def Let_def split: if_splits prod.splits)

text \<open>
  C8. When the rating route succeeds, the order exists and is completed, the caller is its
  buyer or its seller, and the caller's slot held no score; afterwards the caller's slot
  holds the score and the other slot is as before. Any further rating by the same caller
  on the same order fails and changes nothing, and when it passes validation the error
  is "You have already rated this order" (400).
\<close>

theorem C8_rating_once:
  assumes ok: "\<not> isl (fst (addRating_route u now i sc rv s))"
  shows "(\<exists>od od'. findOrder i s = Some od \<and> status od = Completed
            \<and> (buyer od = ru_id u \<or> seller od = ru_id u)
            \<and> \<not> slot_rated (if buyer od = ru_id u then buyerRating od else sellerRating od)
            \<and> findOrder i (snd (addRating_route u now i sc rv s)) = Some od'
            \<and> map_option score (if buyer od = ru_id u then buyerRating od' else sellerRating od')
                = Some sc
            \<and> (if buyer od = ru_id u then sellerRating od' else buyerRating od')
                = (if buyer od = ru_id u then sellerRating od else buyerRating od))
       \<and> (\<exists>e. addRating_route u now' i sc' rv' (snd (addRating_route u now i sc rv s))
               = (Inl e, snd (addRating_route u now i sc rv s)))
       \<and> (\<not> isl (addRatingValidation sc' rv') \<longrightarrow>
             fst (addRating_route u now' i sc' rv' (snd (addRating_route u now i sc rv s)))
               = Inl (AppError ''You have already rated this order'' 400))"
proof -
  from addRating_route_success[OF ok] obtain od rv0 where
    f: "findOrder i s = Some od" and c: "status od = Completed"
    and p: "buyer od = ru_id u \<or> seller od = ru_id u"
    and n: "\<not> slot_rated (if buyer od = ru_id u then buyerRating od else sellerRating od)"
    and sc: "1 \<le> sc" "sc \<le> 5"
    and s': "snd (addRating_route u now i sc rv s) = snd (addRating_m (ru_id u) sc rv0 now od s)"
    by blast
  let ?s' = "snd (addRating_route u now i sc rv s)"
  let ?od' = "rated_by (ru_id u) sc rv0 now od"
  have f': "findOrder i ?s' = Some ?od'" using addRating_m_find[OF f] s' by simp
  have c': "status ?od' = Completed" using c by (simp add: rated_by_def)
  have p': "buyer ?od' = ru_id u \<or> seller ?od' = ru_id u" using p by (auto simp: rated_by_def)
  have r': "slot_rated (if buyer ?od' = ru_id u then buyerRating ?od' else sellerRating ?od')"
    using sc by (auto simp: rated_by_def slot_rated_def)
  have rej: "addRating u now' i sc' x ?s'
      = (Inl (AppError ''You have already rated this order'' 400), ?s')" for x
    using addRating_rejects_rated[OF f' c' p' r'] .
  have 1: "\<exists>od od'. findOrder i s = Some od \<and> status od = Completed
            \<and> (buyer od = ru_id u \<or> seller od = ru_id u)
            \<and> \<not> slot_rated (if buyer od = ru_id u then buyerRating od else sellerRating od)
            \<and> findOrder i ?s' = Some od'
            \<and> map_option score (if buyer od = ru_id u then buyerRating od' else sellerRating od')
                = Some sc
            \<and> (if buyer od = ru_id u then sellerRating od' else buyerRating od')
                = (if buyer od = ru_id u then sellerRating od else buyerRating od)"
    using f c p n f' by (intro exI[of _ od] exI[of _ ?od']) (auto simp: rated_by_def)
  have 2: "\<exists>e. addRating_route u now' i sc' rv' ?s' = (Inl e, ?s')"
    using rej by (auto simp: addRating_route_def split: sum.splits)
  have 3: "\<not> isl (addRatingValidation sc' rv') \<longrightarrow>
             fst (addRating_route u now' i sc' rv' ?s')
               = Inl (AppError ''You have already rated this order'' 400)"
    using rej by (auto simp: addRating_route_def split: sum.splits)
  show ?thesis by (rule conjI[OF 1 conjI[OF 2 3]])
qed

text \<open>
  Witness of C8: the buyer rates the completed order 1 with 5, and the same request
  again is refused and changes nothing.
\<close>

theorem C8_witness:
  "\<not> isl (fst (addRating_route ex_buyer 300 1 5 (Some ''great'')
                 (ex_state_with [ex_order_in Completed])))
   \<and> addRating_route ex_buyer 400 1 5 (Some ''great'')
        (snd (addRating_route ex_buyer 300 1 5 (Some ''great'')
               (ex_state_with [ex_order_in Completed])))
       = (Inl (AppError ''You have already rated this order'' 400),
          snd (addRating_route ex_buyer 300 1 5 (Some ''great'')
                (ex_state_with [ex_order_in Completed])))"
proof -
  have ok: "\<not> isl (fst (addRating_route ex_buyer 300 1 5 (Some ''great'')
                 (ex_state_with [ex_order_in Completed])))"
    by (simp add: addRating_route_def addRatingValidation_def trim_def is_space_def
        addRating_def addRating_m_def findOrder_def canBeRated_def slot_rated_def Let_def
        ex_defs)
  have v: "\<not> isl (addRatingValidation 5 (Some ''great''))"
    by (simp add: addRatingValidation_def trim_def is_space_def)
  from C8_rating_once[OF ok, of 400 5 "Some ''great''"] v ok show ?thesis
    by (metis fst_conv prod.collapse snd_conv)
qed








section \<open>Verification: reading a chat\<close>

lemma messages_markAsRead:
  "messages (markAsRead u now c) = map (mark u now) (messages c)"
  by (simp add: markAsRead_def mark_def Let_def)

lemma not_to_mark_mark [simp]: "\<not> to_mark u (mark u now m)"
  by (simp add: mark_def to_mark_def)

lemma mark_id: "\<not> to_mark u m \<Longrightarrow> mark u now m = m"
  by (simp add: mark_def)

lemma map_mark_id: "\<not> list_ex (to_mark u) ms \<Longrightarrow> map (mark u now) ms = ms"
  by (induction ms) (auto simp: mark_id)

lemma markAsRead_nothing: "\<not> list_ex (to_mark u) (messages c) \<Longrightarrow> markAsRead u now c = c"
  by (simp add: markAsRead_def Let_def map_mark_id[unfolded mark_def])

lemma no_unread_after: "\<not> list_ex (to_mark u) (messages (markAsRead u now c))"
  by (simp add: messages_markAsRead list_ex_iff)

lemma markAsRead_idem: "markAsRead u now' (markAsRead u now c) = markAsRead u now c"
  using markAsRead_nothing[OF no_unread_after] .

lemma markAsRead_counter_some:
  "list_ex (to_mark u) (messages c) \<Longrightarrow> getUnread (markAsRead u now c) u = 0"
  by (simp add: markAsRead_def Let_def getUnread_def)

lemma markAsRead_counter_zero:
  "getUnread c u = 0 \<Longrightarrow> getUnread (markAsRead u now c) u = 0"
  by (cases "list_ex (to_mark u) (messages c)")
    (simp_all add: markAsRead_counter_some markAsRead_nothing)


lemma markAsRead_frame:
  "participants (markAsRead u now c) = participants c"
  "chat_listing (markAsRead u now c) = chat_listing c"
  "lastMessage (markAsRead u now c) = lastMessage c"
  "isActive (markAsRead u now c) = isActive c"
  "blockedBy (markAsRead u now c) = blockedBy c"
  by (simp_all add: markAsRead_def Let_def)


lemma markAsRead_nth:
  "k < length (messages c) \<Longrightarrow>
     messages (markAsRead u now c) ! k =
       (if \<not> isRead (messages c ! k) \<and> sender (messages c ! k) \<noteq> u
        then (messages c ! k)\<lparr>isRead := True, readAt := Some now\<rparr> else messages c ! k)"
  by (simp add: messages_markAsRead mark_def to_mark_def)

lemma markChatAsRead_ok:
  "chats s i = Some c \<Longrightarrow> isParticipant c (ru_id usr) \<Longrightarrow>
     markChatAsRead usr now i s = (Inr (), chat_save i (markAsRead (ru_id usr) now c) s)"
  by (simp add: markChatAsRead_def)

lemma chat_save_same: "chat_save i c (chat_save i c s) = chat_save i c s"
  by (simp add: chat_save_def)

lemma chats_chat_save [simp]: "chats (chat_save i c s) i = Some c"
  by (simp add: chat_save_def)

lemmas ex_chat_defs = ex_chat_def ex_chat_state_def ex_message_def ex_listing_def ex_user_def
  ex_buyer_def ex_seller_def ex_third_def

text \<open>
  C3, as stated, fails: \<open>markAsRead\<close> writes the counter only when it has marked a
  message. In a chat whose one message from user 20 is already read while the counter of
  user 10 stands at 1 (as a \<open>markAsRead\<close> that runs between the two saves of a
  \<open>sendMessage\<close> leaves it), nothing is marked and the counter stays at 1.
\<close>

theorem C3_counterexample:
  "\<not> list_ex (to_mark 10) (messages (ex_chat [ex_message 1 20 TextMsg True] 1))
   \<and> getUnread (markAsRead 10 500 (ex_chat [ex_message 1 20 TextMsg True] 1)) 10 = 1"
  by (simp add: markAsRead_def getUnread_def to_mark_def ex_chat_def ex_message_def Let_def)

text \<open>
  C3, amended. \<open>markAsRead\<close> keeps the number and order of the messages; a message of
  another sender that was unread gets the read flag and the read timestamp, every other
  message stays as it was. When at least one message was marked the user's counter is 0
  afterwards; when none was, the chat, counter included, is unchanged; so a counter that
  was 0 is 0 afterwards. A second call for the same user changes nothing, whatever the
  clock, and the route \<open>markChatAsRead\<close> called twice by a participant answers
  success both times and stores the same chat.
\<close>

theorem C3_markAsRead:
  "length (messages (markAsRead u now c)) = length (messages c)
   \<and> (\<forall>k < length (messages c).
         messages (markAsRead u now c) ! k =
           (if \<not> isRead (messages c ! k) \<and> sender (messages c ! k) \<noteq> u
            then (messages c ! k)\<lparr>isRead := True, readAt := Some now\<rparr> else messages c ! k))
   \<and> (list_ex (to_mark u) (messages c) \<longrightarrow> getUnread (markAsRead u now c) u = 0)
   \<and> (\<not> list_ex (to_mark u) (messages c) \<longrightarrow> markAsRead u now c = c)
   \<and> (getUnread c u = 0 \<longrightarrow> getUnread (markAsRead u now c) u = 0)
   \<and> markAsRead u now' (markAsRead u now c) = markAsRead u now c
   \<and> (chats s i = Some c \<and> isParticipant c u \<longrightarrow>
        markChatAsRead \<lparr>ru_id = u, ru_role = r\<rparr> now i s
          = (Inr (), chat_save i (markAsRead u now c) s)
        \<and> markChatAsRead \<lparr>ru_id = u, ru_role = r\<rparr> now' i (chat_save i (markAsRead u now c) s)
          = (Inr (), chat_save i (markAsRead u now c) s))"
proof -
  have 1: "length (messages (markAsRead u now c)) = length (messages c)"
    by (simp add: messages_markAsRead)
  have 2: "\<forall>k < length (messages c).
         messages (markAsRead u now c) ! k =
           (if \<not> isRead (messages c ! k) \<and> sender (messages c ! k) \<noteq> u
            then (messages c ! k)\<lparr>isRead := True, readAt := Some now\<rparr> else messages c ! k)"
    using markAsRead_nth by blast
  have 7: "chats s i = Some c \<and> isParticipant c u \<longrightarrow>
        markChatAsRead \<lparr>ru_id = u, ru_role = r\<rparr> now i s
          = (Inr (), chat_save i (markAsRead u now c) s)
        \<and> markChatAsRead \<lparr>ru_id = u, ru_role = r\<rparr> now' i (chat_save i (markAsRead u now c) s)
          = (Inr (), chat_save i (markAsRead u now c) s)"
  proof
    assume a: "chats s i = Some c \<and> isParticipant c u"
    let ?u = "\<lparr>ru_id = u, ru_role = r\<rparr>"
    let ?c' = "markAsRead u now c"
    have p: "isParticipant ?c' (ru_id ?u)"
      using a by (simp add: isParticipant_def markAsRead_frame)
    have "markChatAsRead ?u now i s = (Inr (), chat_save i ?c' s)"
      using markChatAsRead_ok[of s i c ?u now] a by simp
    moreover have "markChatAsRead ?u now' i (chat_save i ?c' s) = (Inr (), chat_save i ?c' s)"
      using markChatAsRead_ok[OF chats_chat_save p, of now' i s]
      by (simp add: markAsRead_idem chat_save_same)
    ultimately show "markChatAsRead ?u now i s = (Inr (), chat_save i ?c' s)
        \<and> markChatAsRead ?u now' i (chat_save i ?c' s) = (Inr (), chat_save i ?c' s)"
      by simp
  qed
  show ?thesis
    using 1 2 markAsRead_counter_some markAsRead_nothing markAsRead_counter_zero
      markAsRead_idem 7
    by (intro conjI impI) simp_all
qed

text \<open>
  Witness of C3: user 10 has one unread message from user 20 and one of its own; the
  first is marked, the counter drops to 0, and the second call changes nothing.
\<close>

theorem C3_witness:
  "list_ex (to_mark 10) (messages (ex_chat [ex_message 1 20 TextMsg False, ex_message 2 10 TextMsg False] 1))
   \<and> map isRead (messages (markAsRead 10 500
         (ex_chat [ex_message 1 20 TextMsg False, ex_message 2 10 TextMsg False] 1)))
       = [True, False]
   \<and> getUnread (markAsRead 10 500
         (ex_chat [ex_message 1 20 TextMsg False, ex_message 2 10 TextMsg False] 1)) 10 = 0
   \<and> markAsRead 10 600 (markAsRead 10 500
         (ex_chat [ex_message 1 20 TextMsg False, ex_message 2 10 TextMsg False] 1))
       = markAsRead 10 500
         (ex_chat [ex_message 1 20 TextMsg False, ex_message 2 10 TextMsg False] 1)
   \<and> fst (markChatAsRead ex_buyer 600 1
         (snd (markChatAsRead ex_buyer 500 1 (ex_chat_state
           (ex_chat [ex_message 1 20 TextMsg False, ex_message 2 10 TextMsg False] 1)))))
       = Inr ()
   \<and> snd (markChatAsRead ex_buyer 600 1
         (snd (markChatAsRead ex_buyer 500 1 (ex_chat_state
           (ex_chat [ex_message 1 20 TextMsg False, ex_message 2 10 TextMsg False] 1)))))
       = snd (markChatAsRead ex_buyer 500 1 (ex_chat_state
           (ex_chat [ex_message 1 20 TextMsg False, ex_message 2 10 TextMsg False] 1)))"
proof -
  let ?c = "ex_chat [ex_message 1 20 TextMsg False, ex_message 2 10 TextMsg False] 1"
  have h: "list_ex (to_mark 10) (messages ?c)"
    by (simp add: to_mark_def ex_chat_defs)
  have p: "chats (ex_chat_state ?c) 1 = Some ?c \<and> isParticipant ?c 10"
    by (simp add: isParticipant_def ex_chat_defs)
  have b: "ex_buyer = \<lparr>ru_id = 10, ru_role = Student\<rparr>" by (simp add: ex_buyer_def)
  note t = C3_markAsRead[where u = 10 and now = 500 and c = ?c and now' = 600
      and s = "ex_chat_state ?c" and i = 1 and r = Student]
  have m: "map isRead (messages (markAsRead 10 500 ?c)) = [True, False]"
    using t[THEN conjunct2, THEN conjunct1, rule_format, of 0]
      t[THEN conjunct2, THEN conjunct1, rule_format, of 1] t[THEN conjunct1]
    by (simp add: ex_chat_defs list_eq_iff_nth_eq less_Suc_eq)
  from t h p m show ?thesis unfolding b by simp
qed





section \<open>Verification: offers\<close>

lemma respondToOffer_orders: "orders (snd (respondToOffer u cid k st s)) = orders s"
  by (auto simp: respondToOffer_def chat_save_def split: option.splits if_splits)

lemma respondToOffer_success:
  assumes "\<not> isl (fst (respondToOffer u cid k st s))"
  shows "\<exists>c l m. chats s cid = Some c \<and> listings s (chat_listing c) = Some l
      \<and> l_seller l = ru_id u \<and> find (\<lambda>m. mid m = k) (messages c) = Some m
      \<and> mtype m = OfferMsg \<and> offer_state m = OfferPending
      \<and> st \<in> {OfferAccepted, OfferRejected}
      \<and> respondToOffer u cid k st s
          = (Inr (m\<lparr>offer_state := st\<rparr>),
             chat_save cid (c\<lparr>messages := update_first (\<lambda>m. mid m = k)
                                 (\<lambda>m. m\<lparr>offer_state := st\<rparr>) (messages c)\<rparr>) s)"
proof (cases "st \<in> {OfferAccepted, OfferRejected}")
  case False
  with assms show ?thesis by (auto simp: respondToOffer_def)
next
  case st: True
  show ?thesis
  proof (cases "chats s cid")
    case None
    with assms st show ?thesis by (auto simp: respondToOffer_def)
  next
    case (Some c)
    note c = this
    show ?thesis
    proof (cases "listings s (chat_listing c)")
      case None
      with assms st c show ?thesis by (auto simp: respondToOffer_def)
    next
      case (Some l)
      note l = this
      show ?thesis
      proof (cases "find (\<lambda>m. mid m = k) (messages c)")
        case None
        with assms st c l show ?thesis by (auto simp: respondToOffer_def split: if_splits)
      next
        case (Some m)
        with assms st c l show ?thesis
          by (auto simp: respondToOffer_def split: if_splits)
      qed
    qed
  qed
qed

lemma respondToOffer_resolved:
  assumes "chats s cid = Some c" "listings s (chat_listing c) = Some l" "l_seller l = ru_id u"
    "find (\<lambda>m. mid m = k) (messages c) = Some m" "mtype m = OfferMsg"
    "offer_state m \<noteq> OfferPending" "st \<in> {OfferAccepted, OfferRejected}"
  shows "respondToOffer u cid k st s
         = (Inl (AppError ''This offer has already been responded to'' 400), s)"
  using assms by (auto simp: respondToOffer_def)

text \<open>
  C7. \<open>respondToOffer\<close> never changes the orders. When it succeeds, the response is
  accepted or rejected, the chat and its listing exist, the caller is the listing's
  seller, and the message with the given identifier exists, is an offer and was pending;
  afterwards that message carries the response and no message was added or removed. A
  second response (accepted or rejected) to the same message by the same caller fails
  with "This offer has already been responded to" (400) and changes nothing.
\<close>

theorem C7_respondToOffer:
  "orders (snd (respondToOffer u cid k st s)) = orders s
   \<and> (\<not> isl (fst (respondToOffer u cid k st s)) \<longrightarrow>
        (\<exists>c l m c'. chats s cid = Some c \<and> listings s (chat_listing c) = Some l
            \<and> l_seller l = ru_id u \<and> find (\<lambda>m. mid m = k) (messages c) = Some m
            \<and> mtype m = OfferMsg \<and> offer_state m = OfferPending
            \<and> st \<in> {OfferAccepted, OfferRejected}
            \<and> fst (respondToOffer u cid k st s) = Inr (m\<lparr>offer_state := st\<rparr>)
            \<and> chats (snd (respondToOffer u cid k st s)) cid = Some c'
            \<and> find (\<lambda>m. mid m = k) (messages c') = Some (m\<lparr>offer_state := st\<rparr>)
            \<and> length (messages c') = length (messages c))
        \<and> (st' \<in> {OfferAccepted, OfferRejected} \<longrightarrow>
             respondToOffer u cid k st' (snd (respondToOffer u cid k st s))
               = (Inl (AppError ''This offer has already been responded to'' 400),
                  snd (respondToOffer u cid k st s))))"
proof (intro conjI impI)
  show "orders (snd (respondToOffer u cid k st s)) = orders s"
    by (rule respondToOffer_orders)
next
  assume ok: "\<not> isl (fst (respondToOffer u cid k st s))"
  from respondToOffer_success[OF ok] obtain c l m where
    c: "chats s cid = Some c" and l: "listings s (chat_listing c) = Some l"
    and sl: "l_seller l = ru_id u" and f: "find (\<lambda>m. mid m = k) (messages c) = Some m"
    and ty: "mtype m = OfferMsg" and pe: "offer_state m = OfferPending"
    and st: "st \<in> {OfferAccepted, OfferRejected}"
    and r: "respondToOffer u cid k st s
          = (Inr (m\<lparr>offer_state := st\<rparr>),
             chat_save cid (c\<lparr>messages := update_first (\<lambda>m. mid m = k)
                                 (\<lambda>m. m\<lparr>offer_state := st\<rparr>) (messages c)\<rparr>) s)"
    by blast
  let ?c' = "c\<lparr>messages := update_first (\<lambda>m. mid m = k)
                                 (\<lambda>m. m\<lparr>offer_state := st\<rparr>) (messages c)\<rparr>"
  let ?s' = "snd (respondToOffer u cid k st s)"
  have mk: "mid m = k" using f by (auto simp: find_Some_iff)
  have f': "find (\<lambda>m. mid m = k) (messages ?c') = Some (m\<lparr>offer_state := st\<rparr>)"
    using find_update_first[OF f, of "\<lambda>m. m\<lparr>offer_state := st\<rparr>"] mk by simp
  have c': "chats ?s' cid = Some ?c'" using r by (simp add: chat_save_def)
  have l': "listings ?s' (chat_listing ?c') = Some l" using r l by (simp add: chat_save_def)
  show "\<exists>c l m c'. chats s cid = Some c \<and> listings s (chat_listing c) = Some l
            \<and> l_seller l = ru_id u \<and> find (\<lambda>m. mid m = k) (messages c) = Some m
            \<and> mtype m = OfferMsg \<and> offer_state m = OfferPending
            \<and> st \<in> {OfferAccepted, OfferRejected}
            \<and> fst (respondToOffer u cid k st s) = Inr (m\<lparr>offer_state := st\<rparr>)
            \<and> chats (snd (respondToOffer u cid k st s)) cid = Some c'
            \<and> find (\<lambda>m. mid m = k) (messages c') = Some (m\<lparr>offer_state := st\<rparr>)
            \<and> length (messages c') = length (messages c)"
    using c l sl f ty pe st r c' f'
    by (intro exI[of _ c] exI[of _ l] exI[of _ m] exI[of _ ?c']) simp
  assume st': "st' \<in> {OfferAccepted, OfferRejected}"
  have np: "offer_state (m\<lparr>offer_state := st\<rparr>) \<noteq> OfferPending" using st by auto
  have ty': "mtype (m\<lparr>offer_state := st\<rparr>) = OfferMsg" using ty by simp
  show "respondToOffer u cid k st' ?s'
      = (Inl (AppError ''This offer has already been responded to'' 400), ?s')"
    by (rule respondToOffer_resolved[OF c' l' sl f' ty' np st'])
qed

text \<open>
  Witness of C7: the seller accepts the buyer's offer of 40; the rejection that follows
  is refused, and there is still no order.
\<close>

theorem C7_witness:
  "fst (respondToOffer ex_seller 1 5 OfferAccepted
          (ex_chat_state (ex_chat [ex_message 5 10 OfferMsg False] 0)))
     = Inr ((ex_message 5 10 OfferMsg False)\<lparr>offer_state := OfferAccepted\<rparr>)
   \<and> respondToOffer ex_seller 1 5 OfferRejected
        (snd (respondToOffer ex_seller 1 5 OfferAccepted
               (ex_chat_state (ex_chat [ex_message 5 10 OfferMsg False] 0))))
     = (Inl (AppError ''This offer has already been responded to'' 400),
        snd (respondToOffer ex_seller 1 5 OfferAccepted
               (ex_chat_state (ex_chat [ex_message 5 10 OfferMsg False] 0))))
   \<and> orders (snd (respondToOffer ex_seller 1 5 OfferAccepted
               (ex_chat_state (ex_chat [ex_message 5 10 OfferMsg False] 0)))) = []"
proof -
  let ?s = "ex_chat_state (ex_chat [ex_message 5 10 OfferMsg False] 0)"
  have ok: "fst (respondToOffer ex_seller 1 5 OfferAccepted ?s)
     = Inr ((ex_message 5 10 OfferMsg False)\<lparr>offer_state := OfferAccepted\<rparr>)"
    by (simp add: respondToOffer_def ex_chat_defs)
  then have n: "\<not> isl (fst (respondToOffer ex_seller 1 5 OfferAccepted ?s))" by simp
  have o: "orders ?s = []" by (simp add: ex_chat_state_def)
  note t = C7_respondToOffer[of ex_seller 1 5 OfferAccepted ?s OfferRejected]
  from t[THEN conjunct1] t[THEN conjunct2, rule_format, OF n] ok o show ?thesis by simp
qed

section \<open>Verification: sending a message\<close>


lemma chat_save_twice: "chat_save i c' (chat_save i c s) = chat_save i c' s"
  by (simp add: chat_save_def)

lemma sendMessage_sent:
  assumes "chats s i = Some c" "isParticipant c (ru_id u)" "\<not> isBlockedBy c (ru_id u)"
    "other_participant c (ru_id u) = Some r" "\<not> isBlockedBy c r"
  shows "sendMessage u new_id now i body ty img offer s
         = (Inr (cast_message new_id now (built_message u body ty img offer)),
            chat_save i
              (incrementUnread r
                 (updateLastMessage (built_message u body ty img offer)
                    (c\<lparr>messages := messages c
                          @ [cast_message new_id now (built_message u body ty img offer)]\<rparr>)))
              s)"
  using assms
  by (simp add: sendMessage_def built_message_def Let_def chat_save_twice)

lemma sendMessage_refused:
  assumes "chats s i = Some c" "other_participant c (ru_id u) = Some r"
  shows "\<not> isParticipant c (ru_id u) \<Longrightarrow>
           sendMessage u new_id now i body ty img offer s
             = (Inl (AppError ''Not authorized to send messages in this chat'' 403), s)"
    and "isParticipant c (ru_id u) \<Longrightarrow> isBlockedBy c (ru_id u) \<Longrightarrow>
           sendMessage u new_id now i body ty img offer s
             = (Inl (AppError ''You have blocked this chat'' 403), s)"
    and "isParticipant c (ru_id u) \<Longrightarrow> \<not> isBlockedBy c (ru_id u) \<Longrightarrow> isBlockedBy c r \<Longrightarrow>
           sendMessage u new_id now i body ty img offer s
             = (Inl (AppError ''You cannot send messages to this user'' 403), s)"
  using assms by (simp_all add: sendMessage_def Let_def)


lemma validation_iff:
  "(\<not> isl (sendMessageValidation body)) = (trim body \<noteq> [] \<and> length (trim body) \<le> 2000)"
  "trim body \<noteq> [] \<Longrightarrow> length (trim body) \<le> 2000 \<Longrightarrow> sendMessageValidation body = Inr (trim body)"
  by (auto simp: sendMessageValidation_def Let_def)

lemma route_valid:
  "trim body \<noteq> [] \<Longrightarrow> length (trim body) \<le> 2000 \<Longrightarrow>
     sendMessage_route u new_id now i body ty img offer s
       = sendMessage u new_id now i (trim body) ty img offer s"
  by (simp add: sendMessage_route_def validation_iff(2))

lemma route_invalid:
  "\<not> (trim body \<noteq> [] \<and> length (trim body) \<le> 2000) \<Longrightarrow>
     sendMessage_route u new_id now i body ty img offer s = (Inl ValidationFailed, s)"
  by (auto simp: sendMessage_route_def sendMessageValidation_def Let_def)











lemma sendMessage_no_recipient:
  assumes "chats s i = Some c" "other_participant c (ru_id u) = None"
  shows "isl (fst (sendMessage u new_id now i body ty img offer s))"
  using assms by (simp add: sendMessage_def Let_def)

lemma sendMessage_success:
  assumes c: "chats s i = Some c"
    and ok: "\<not> isl (fst (sendMessage u new_id now i body ty img offer s))"
  shows "\<exists>r. other_participant c (ru_id u) = Some r \<and> isParticipant c (ru_id u)
            \<and> \<not> isBlockedBy c (ru_id u) \<and> \<not> isBlockedBy c r"
proof (cases "other_participant c (ru_id u)")
  case None
  with sendMessage_no_recipient[OF c None] ok show ?thesis by simp
next
  case (Some r)
  have p: "isParticipant c (ru_id u)"
  proof (rule ccontr)
    assume n: "\<not> isParticipant c (ru_id u)"
    from sendMessage_refused(1)[OF c Some n, of new_id now body ty img offer] ok
    show False by simp
  qed
  have b: "\<not> isBlockedBy c (ru_id u)"
  proof
    assume n: "isBlockedBy c (ru_id u)"
    from sendMessage_refused(2)[OF c Some p n, of new_id now body ty img offer] ok
    show False by simp
  qed
  have b': "\<not> isBlockedBy c r"
  proof
    assume n: "isBlockedBy c r"
    from sendMessage_refused(3)[OF c Some p b n, of new_id now body ty img offer] ok
    show False by simp
  qed
  from Some p b b' show ?thesis by simp
qed

lemma sendMessage_effects:
  assumes c: "chats s i = Some c"
    and ok: "\<not> isl (fst (sendMessage_route u new_id now i body ty img offer s))"
  shows "\<exists>r m c'. other_participant c (ru_id u) = Some r
      \<and> fst (sendMessage_route u new_id now i body ty img offer s) = Inr m
      \<and> chats (snd (sendMessage_route u new_id now i body ty img offer s)) i = Some c'
      \<and> messages c' = messages c @ [m]
      \<and> sender m = ru_id u \<and> content m = trim body \<and> createdAt m = now
      \<and> mid m = new_id \<and> \<not> isRead m \<and> offer_state m = OfferPending
      \<and> getUnread c' r = getUnread c r + 1
      \<and> lastMessage c' = Some \<lparr>lm_content = take 100 (content m), lm_sender = sender m,
                                lm_createdAt = None\<rparr>"
proof -
  have v: "trim body \<noteq> [] \<and> length (trim body) \<le> 2000"
  proof (rule ccontr)
    assume n: "\<not> (trim body \<noteq> [] \<and> length (trim body) \<le> 2000)"
    from route_invalid[OF n, of u new_id now i ty img offer s] ok show False by simp
  qed
  then have r: "sendMessage_route u new_id now i body ty img offer s
      = sendMessage u new_id now i (trim body) ty img offer s"
    by (simp add: route_valid)
  with ok have ok': "\<not> isl (fst (sendMessage u new_id now i (trim body) ty img offer s))"
    by simp
  from sendMessage_success[OF c ok'] obtain rc where
    rc: "other_participant c (ru_id u) = Some rc" and p: "isParticipant c (ru_id u)"
    and b: "\<not> isBlockedBy c (ru_id u)" "\<not> isBlockedBy c rc"
    by blast
  let ?msg = "built_message u (trim body) ty img offer"
  let ?m = "cast_message new_id now ?msg"
  let ?c' = "incrementUnread rc (updateLastMessage ?msg (c\<lparr>messages := messages c @ [?m]\<rparr>))"
  have e: "sendMessage_route u new_id now i body ty img offer s = (Inr ?m, chat_save i ?c' s)"
    using sendMessage_sent[OF c p b(1) rc b(2)] r by simp
  have m: "sender ?m = ru_id u" "content ?m = trim body" "createdAt ?m = now" "mid ?m = new_id"
    "\<not> isRead ?m" "offer_state ?m = OfferPending"
    by (auto simp: cast_message_def built_message_def Let_def split: option.splits)
  have c': "messages ?c' = messages c @ [?m]" "getUnread ?c' rc = getUnread c rc + 1"
    "lastMessage ?c' = Some \<lparr>lm_content = take 100 (content ?m), lm_sender = sender ?m,
                                lm_createdAt = None\<rparr>"
  proof -
    have bm: "mo_content ?msg = trim body" "mo_sender ?msg = ru_id u" "mo_createdAt ?msg = None"
      by (simp_all add: built_message_def Let_def)
    show "messages ?c' = messages c @ [?m]"
      by (simp add: incrementUnread_def updateLastMessage_def)
    show "getUnread ?c' rc = getUnread c rc + 1"
      by (simp add: incrementUnread_def updateLastMessage_def getUnread_def)
    show "lastMessage ?c' = Some \<lparr>lm_content = take 100 (content ?m), lm_sender = sender ?m,
                                lm_createdAt = None\<rparr>"
      by (simp add: incrementUnread_def updateLastMessage_def bm m)
  qed
  show ?thesis
    using rc e m c' by (intro exI[of _ rc] exI[of _ ?m] exI[of _ ?c']) simp
qed

text \<open>
  C6 does not hold of the code. \<open>sendMessage_effects\<close> above gives what does hold
  after a successful send: the new message is the last one, an offer starts pending, the
  recipient's counter grows by one, and the cache has the truncated content and the
  sender. But \<open>updateLastMessage\<close> is handed the object literal, which has no
  \<open>createdAt\<close>, not the stored sub-document: user 10 sends "hello" at time 300, the
  stored message has timestamp 300 and the cache has none.
\<close>

theorem C6_lastMessage_without_timestamp:
  "\<not> isl (fst (sendMessage_route ex_buyer 9 300 1 ''hello'' None None None
                 (ex_chat_state (ex_chat [] 0))))
   \<and> map_option (\<lambda>c. (map createdAt (messages c), map_option lm_createdAt (lastMessage c)))
        (chats (snd (sendMessage_route ex_buyer 9 300 1 ''hello'' None None None
                      (ex_chat_state (ex_chat [] 0)))) 1)
       = Some ([300], Some None)"
  by (simp add: sendMessage_route_def sendMessageValidation_def trim_def is_space_def
      sendMessage_def isParticipant_def isBlockedBy_def other_participant_def cast_message_def
      updateLastMessage_def incrementUnread_def getUnread_def chat_save_def Let_def
      ex_chat_defs)

end
